theory Spec2Isabelle
  imports Complex_Main "HOL-Library.Multiset" "HOL-Library.Sublist"
begin

section \<open>Host-language primitives\<close>

text \<open>
  The engine is TypeScript.  Its strings are modelled as \<^typ>\<open>string\<close>; the case mappings
  and the white-space class are the ASCII ones (the questionnaire ids, operators and
  variable names the engine handles are ASCII identifiers).
\<close>

definition isUpperChar :: "char \<Rightarrow> bool" where
  "isUpperChar c = (65 \<le> (of_char c :: nat) \<and> (of_char c :: nat) \<le> 90)"


definition toLowerChar :: "char \<Rightarrow> char" where
  "toLowerChar c = (if isUpperChar c then char_of ((of_char c :: nat) + 32) else c)"


definition toLowerCase :: "string \<Rightarrow> string" where
  "toLowerCase s = map toLowerChar s"


definition isSpaceChar :: "char \<Rightarrow> bool" where
  "isSpaceChar c = ((of_char c :: nat) = 32 \<or> (9 \<le> (of_char c :: nat) \<and> (of_char c :: nat) \<le> 13))"

definition isDigitChar :: "char \<Rightarrow> bool" where
  "isDigitChar c = (48 \<le> (of_char c :: nat) \<and> (of_char c :: nat) \<le> 57)"

definition trim :: "string \<Rightarrow> string" where
  "trim s = rev (dropWhile isSpaceChar (rev (dropWhile isSpaceChar s)))"

text \<open>\<^verbatim>\<open>s.includes(sub)\<close>: \<open>sub\<close> occurs in \<open>s\<close> as a contiguous block.\<close>

fun includesStr :: "'a list \<Rightarrow> 'a list \<Rightarrow> bool" where
  "includesStr [] sub = (sub = [])"
| "includesStr (x # xs) sub = (prefix sub (x # xs) \<or> includesStr xs sub)"

text \<open>\<^verbatim>\<open>s.split(sep)\<close> for a string separator; the empty separator splits into characters.\<close>

function split :: "'a list \<Rightarrow> 'a list \<Rightarrow> 'a list list" where
  "split sep s =
     (if sep = [] then map (\<lambda>c. [c]) s
      else if s = [] then [[]]
      else if prefix sep s then [] # split sep (drop (length sep) s)
      else (case split sep (tl s) of
              [] \<Rightarrow> [[hd s]]
            | p # ps \<Rightarrow> (hd s # p) # ps))"
  by pat_completeness auto
termination
  by (relation "measure (\<lambda>(sep, s). length s)") auto

declare split.simps [simp del]

text \<open>\<^verbatim>\<open>parts.join(sep)\<close>.\<close>

fun join :: "'a list \<Rightarrow> 'a list list \<Rightarrow> 'a list" where
  "join sep [] = []"
| "join sep [p] = p"
| "join sep (p # q # ps) = p @ sep @ join sep (q # ps)"



subsection \<open>Numbers\<close>

text \<open>
  The engine computes with the host's IEEE-754 numbers through a handful of built-ins.
  They are not code of the repository, so every function that needs them takes them as
  a parameter: a record of the operations it calls.  Theorems quantified over this
  record hold for the host's own arithmetic as well as for the exact instance below.
\<close>

record 'n Number =
  parseFloat :: "string \<Rightarrow> 'n"
  numToString :: "'n \<Rightarrow> string"
  toLocaleString :: "'n \<Rightarrow> (nat \<times> nat) option \<Rightarrow> string"
  isNaN :: "'n \<Rightarrow> bool"
  isFinite :: "'n \<Rightarrow> bool"
  num_of_nat :: "nat \<Rightarrow> 'n"
  num_add :: "'n \<Rightarrow> 'n \<Rightarrow> 'n"
  num_sub :: "'n \<Rightarrow> 'n \<Rightarrow> 'n"
  num_mul :: "'n \<Rightarrow> 'n \<Rightarrow> 'n"
  num_div :: "'n \<Rightarrow> 'n \<Rightarrow> 'n"
  num_floor :: "'n \<Rightarrow> 'n"
  num_eq :: "'n \<Rightarrow> 'n \<Rightarrow> bool"
  num_lt :: "'n \<Rightarrow> 'n \<Rightarrow> bool"
  num_le :: "'n \<Rightarrow> 'n \<Rightarrow> bool"

text \<open>
  An instance for running the engine on concrete inputs: numbers are \<open>NaN\<close>, the two
  infinities, or an exact rational.  Rounding to binary64 and the sign of zero are not
  represented, so the instance agrees with the host wherever every value involved is
  exactly representable (in particular on integers below \<open>2^53\<close> and on short decimal
  fractions whose printed form is the value itself).
\<close>

datatype jsnum = NaN | PosInf | NegInf | Fin rat

definition digitChar :: "int \<Rightarrow> char" where
  "digitChar d = char_of (48 + d)"

definition digitVal :: "char \<Rightarrow> int" where
  "digitVal c = (of_char c :: int) - 48"

text \<open>The decimal digits of a non-negative integer, and the value of a digit string.\<close>

function showNat :: "int \<Rightarrow> string" where
  "showNat n = (if n < 10 then [digitChar n] else showNat (n div 10) @ [digitChar (n mod 10)])"
  by pat_completeness auto
termination
  by (relation "measure nat") auto

declare showNat.simps [simp del]

definition readNat :: "string \<Rightarrow> int" where
  "readNat ds = foldl (\<lambda>a c. 10 * a + digitVal c) 0 ds"

fun fracDigits :: "nat \<Rightarrow> rat \<Rightarrow> string" where
  "fracDigits 0 r = []"
| "fracDigits (Suc k) r =
     (if r = 0 then []
      else digitChar \<lfloor>r * 10\<rfloor> # fracDigits k (r * 10 - of_int \<lfloor>r * 10\<rfloor>))"

definition showRat :: "rat \<Rightarrow> string" where
  "showRat q =
     (if q < 0 then ''-'' else '''') @ showNat \<lfloor>\<bar>q\<bar>\<rfloor> @
     (if \<bar>q\<bar> = of_int \<lfloor>\<bar>q\<bar>\<rfloor> then '''' else ''.'' @ fracDigits 20 (\<bar>q\<bar> - of_int \<lfloor>\<bar>q\<bar>\<rfloor>))"

definition exact_toString :: "jsnum \<Rightarrow> string" where
  "exact_toString n =
     (case n of NaN \<Rightarrow> ''NaN'' | PosInf \<Rightarrow> ''Infinity'' | NegInf \<Rightarrow> ''-Infinity''
      | Fin q \<Rightarrow> showRat q)"

text \<open>
  \<^verbatim>\<open>parseFloat\<close>: leading white space, an optional sign, then \<^verbatim>\<open>Infinity\<close> or the longest
  decimal literal (digits, optional fraction, optional exponent); anything after it is
  ignored, and no literal at all is \<open>NaN\<close>.
\<close>

definition readExponent :: "string \<Rightarrow> int" where
  "readExponent r =
     (case r of
        [] \<Rightarrow> 0
      | e # r1 \<Rightarrow>
          if e = CHR ''e'' \<or> e = CHR ''E'' then
            (case r1 of
               [] \<Rightarrow> 0
             | s # r2 \<Rightarrow>
                 if s = CHR ''-'' then
                   (if takeWhile isDigitChar r2 = [] then 0
                    else - readNat (takeWhile isDigitChar r2))
                 else if s = CHR ''+'' then readNat (takeWhile isDigitChar r2)
                 else readNat (takeWhile isDigitChar r1))
          else 0)"

definition exact_parseFloat :: "string \<Rightarrow> jsnum" where
  "exact_parseFloat s =
     (let s1 = dropWhile isSpaceChar s;
          neg = (take 1 s1 = ''-'');
          s2 = (if take 1 s1 = ''-'' \<or> take 1 s1 = ''+'' then drop 1 s1 else s1)
      in if prefix ''Infinity'' s2 then (if neg then NegInf else PosInf)
         else
           let ip = takeWhile isDigitChar s2;
               r1 = dropWhile isDigitChar s2;
               fp = (if take 1 r1 = ''.'' then takeWhile isDigitChar (drop 1 r1) else []);
               r2 = (if take 1 r1 = ''.'' then dropWhile isDigitChar (drop 1 r1) else r1)
           in if ip = [] \<and> fp = [] then NaN
              else
                let m = of_int (readNat ip) + of_int (readNat fp) / 10 ^ length fp;
                    v = m * (10 powi readExponent r2)
                in Fin (if neg then - v else v))"

fun exact_add :: "jsnum \<Rightarrow> jsnum \<Rightarrow> jsnum" where
  "exact_add NaN _ = NaN"
| "exact_add _ NaN = NaN"
| "exact_add PosInf NegInf = NaN"
| "exact_add NegInf PosInf = NaN"
| "exact_add PosInf _ = PosInf"
| "exact_add _ PosInf = PosInf"
| "exact_add NegInf _ = NegInf"
| "exact_add _ NegInf = NegInf"
| "exact_add (Fin a) (Fin b) = Fin (a + b)"

fun exact_neg :: "jsnum \<Rightarrow> jsnum" where
  "exact_neg NaN = NaN"
| "exact_neg PosInf = NegInf"
| "exact_neg NegInf = PosInf"
| "exact_neg (Fin a) = Fin (- a)"

definition exact_sub :: "jsnum \<Rightarrow> jsnum \<Rightarrow> jsnum" where
  "exact_sub a b = exact_add a (exact_neg b)"

definition signedInf :: "bool \<Rightarrow> jsnum" where
  "signedInf negative = (if negative then NegInf else PosInf)"

fun exact_mul :: "jsnum \<Rightarrow> jsnum \<Rightarrow> jsnum" where
  "exact_mul NaN _ = NaN"
| "exact_mul _ NaN = NaN"
| "exact_mul (Fin a) (Fin b) = Fin (a * b)"
| "exact_mul (Fin a) PosInf = (if a = 0 then NaN else signedInf (a < 0))"
| "exact_mul (Fin a) NegInf = (if a = 0 then NaN else signedInf (0 < a))"
| "exact_mul PosInf (Fin b) = (if b = 0 then NaN else signedInf (b < 0))"
| "exact_mul NegInf (Fin b) = (if b = 0 then NaN else signedInf (0 < b))"
| "exact_mul PosInf PosInf = PosInf"
| "exact_mul NegInf NegInf = PosInf"
| "exact_mul PosInf NegInf = NegInf"
| "exact_mul NegInf PosInf = NegInf"

fun exact_div :: "jsnum \<Rightarrow> jsnum \<Rightarrow> jsnum" where
  "exact_div NaN _ = NaN"
| "exact_div _ NaN = NaN"
| "exact_div (Fin a) (Fin b) =
     (if b = 0 then (if a = 0 then NaN else signedInf (a < 0)) else Fin (a / b))"
| "exact_div (Fin a) _ = Fin 0"
| "exact_div PosInf (Fin b) = signedInf (b < 0)"
| "exact_div NegInf (Fin b) = signedInf (0 \<le> b)"
| "exact_div _ _ = NaN"

fun exact_floor :: "jsnum \<Rightarrow> jsnum" where
  "exact_floor (Fin a) = Fin (of_int \<lfloor>a\<rfloor>)"
| "exact_floor n = n"

fun exact_lt :: "jsnum \<Rightarrow> jsnum \<Rightarrow> bool" where
  "exact_lt NaN _ = False"
| "exact_lt _ NaN = False"
| "exact_lt (Fin a) (Fin b) = (a < b)"
| "exact_lt NegInf b = (b \<noteq> NegInf)"
| "exact_lt a PosInf = (a \<noteq> PosInf)"
| "exact_lt _ _ = False"

definition exact_eq :: "jsnum \<Rightarrow> jsnum \<Rightarrow> bool" where
  "exact_eq a b = (a \<noteq> NaN \<and> a = b)"

definition exact_le :: "jsnum \<Rightarrow> jsnum \<Rightarrow> bool" where
  "exact_le a b = (exact_lt a b \<or> exact_eq a b)"

text \<open>
  \<^verbatim>\<open>n.toLocaleString('en-US', {minimumFractionDigits, maximumFractionDigits})\<close>: the value
  rounded half away from zero to the maximum number of fraction digits, trailing zeros
  dropped down to the minimum, the integer part grouped in threes.  Without options the
  bounds are 0 and 3.
\<close>

fun group3 :: "string \<Rightarrow> string" where
  "group3 ds = (if length ds \<le> 3 then ds
                else group3 (take (length ds - 3) ds) @ '','' @ drop (length ds - 3) ds)"

declare group3.simps [simp del]

definition padLeft :: "nat \<Rightarrow> string \<Rightarrow> string" where
  "padLeft k ds = replicate (k - length ds) CHR ''0'' @ ds"

fun dropZerosTo :: "nat \<Rightarrow> string \<Rightarrow> string" where
  "dropZerosTo mn ds =
     (if mn < length ds \<and> last ds = CHR ''0'' then dropZerosTo mn (butlast ds) else ds)"

declare dropZerosTo.simps [simp del]

definition localeRat :: "rat \<Rightarrow> nat \<Rightarrow> nat \<Rightarrow> string" where
  "localeRat q mn mx =
     (let scaled = \<lfloor>\<bar>q\<bar> * 10 ^ mx + 1 / 2\<rfloor>;
          ip = scaled div 10 ^ mx;
          fp = dropZerosTo mn (padLeft mx (if mx = 0 then [] else showNat (scaled mod 10 ^ mx)))
      in (if q < 0 \<and> scaled \<noteq> 0 then ''-'' else '''') @ group3 (showNat ip) @
         (if fp = [] then [] else ''.'' @ fp))"

definition exact_toLocaleString :: "jsnum \<Rightarrow> (nat \<times> nat) option \<Rightarrow> string" where
  "exact_toLocaleString n opts =
     (case n of
        NaN \<Rightarrow> ''NaN''
      | PosInf \<Rightarrow> [CHR 0xE2, CHR 0x88, CHR 0x9E]
      | NegInf \<Rightarrow> CHR ''-'' # [CHR 0xE2, CHR 0x88, CHR 0x9E]
      | Fin q \<Rightarrow> (case opts of None \<Rightarrow> localeRat q 0 3 | Some (mn, mx) \<Rightarrow> localeRat q mn mx))"

definition Exact :: "jsnum Number" where
  "Exact = \<lparr> parseFloat = exact_parseFloat,
             numToString = exact_toString,
             toLocaleString = exact_toLocaleString,
             isNaN = (\<lambda>n. n = NaN),
             isFinite = (\<lambda>n. case n of Fin _ \<Rightarrow> True | _ \<Rightarrow> False),
             num_of_nat = (\<lambda>k. Fin (of_int (int k))),
             num_add = exact_add,
             num_sub = exact_sub,
             num_mul = exact_mul,
             num_div = exact_div,
             num_floor = exact_floor,
             num_eq = exact_eq,
             num_lt = exact_lt,
             num_le = exact_le \<rparr>"


section \<open>Data model\<close>

text \<open>
  \<^verbatim>\<open>SurveyResponse.value\<close> is a string, an array of strings, or an array of records (a
  repeating group).  The empty array belongs to both array shapes; the engine tells a
  group by its first element, so an empty group behaves as an empty string array.
\<close>

datatype rvalue =
    VString string
  | VStrings "string list"
  | VGroup "(string \<times> string) list list"

record SurveyResponse =
  r_questionId :: string
  r_value :: rvalue

datatype operator = OpEq | OpNe | OpContains | OpNotContains | OpIn | OpGt | OpGe | OpLt | OpLe

datatype valueType = Literal | Question

datatype sourceType = FromQuestion | FromComputed

record RuleCondition =
  c_questionId :: string
  c_operator :: operator
  c_value :: string
  c_valueType :: "valueType option"
  c_valueQuestionId :: "string option"
  c_sourceType :: "sourceType option"

datatype logicalOperator = AND | OR

record SelectionRule =
  rule_conditions :: "RuleCondition list"
  rule_logicalOperator :: "logicalOperator option"
  rule_priority :: int
  rule_isAlwaysInclude :: bool
  rule_isManualOnly :: bool

record Template =
  t_id :: string
  t_name :: string
  t_displayName :: string
  t_rules :: "SelectionRule list option"
  t_isActive :: bool

record RuleEvaluationResult =
  templateId :: string
  score :: rat
  matchedRules :: nat
  totalRules :: nat
  isAlwaysInclude :: bool
  isManualOnly :: bool

record TemplateSelection =
  required :: "Template list"
  suggested :: "Template list"
  optional :: "Template list"

text \<open>A computed variable is a string or a number.\<close>

datatype 'n cvalue = CString string | CNumber 'n

type_synonym 'n computed = "string \<rightharpoonup> 'n cvalue"

section \<open>Condition evaluator\<close>

text \<open>\<^verbatim>\<open>responses.find(r => r.questionId === id)?.value\<close>\<close>

definition responseValue :: "SurveyResponse list \<Rightarrow> string \<Rightarrow> rvalue option" where
  "responseValue responses qid =
     map_option r_value (find (\<lambda>r. r_questionId r = qid) responses)"

text \<open>
  \<^verbatim>\<open>Array.isArray(v) ? v.join(',') : String(v)\<close>; a record inside an array prints as
  \<^verbatim>\<open>[object Object]\<close>.
\<close>

definition valueToString :: "rvalue \<Rightarrow> string" where
  "valueToString v =
     (case v of
        VString s \<Rightarrow> s
      | VStrings xs \<Rightarrow> join '','' xs
      | VGroup items \<Rightarrow> join '','' (map (\<lambda>_. ''[object Object]'') items))"

definition computedToString :: "'n Number \<Rightarrow> 'n cvalue \<Rightarrow> string" where
  "computedToString N v = (case v of CString s \<Rightarrow> s | CNumber n \<Rightarrow> numToString N n)"

text \<open>The left operand: \<open>None\<close> when the answer (or computed variable) is missing.\<close>

definition actualValue ::
  "'n Number \<Rightarrow> RuleCondition \<Rightarrow> SurveyResponse list \<Rightarrow> 'n computed option \<Rightarrow> string option" where
  "actualValue N condition responses computedVariables =
     (case (c_sourceType condition, computedVariables) of
        (Some FromComputed, Some table) \<Rightarrow>
          map_option (computedToString N) (table (c_questionId condition))
      | _ \<Rightarrow> map_option valueToString (responseValue responses (c_questionId condition)))"

text \<open>The right operand: a literal, or another answer (\<open>None\<close> when that answer is missing).\<close>

definition conditionValue :: "RuleCondition \<Rightarrow> SurveyResponse list \<Rightarrow> string option" where
  "conditionValue condition responses =
     (case (c_valueType condition, c_valueQuestionId condition) of
        (Some Question, Some ref) \<Rightarrow>
          (if ref = [] then Some (c_value condition)
           else map_option valueToString (responseValue responses ref))
      | _ \<Rightarrow> Some (c_value condition))"

definition bothNumeric :: "'n Number \<Rightarrow> string \<Rightarrow> string \<Rightarrow> bool" where
  "bothNumeric N a b = (\<not> isNaN N (parseFloat N a) \<and> \<not> isNaN N (parseFloat N b))"

text \<open>The \<^verbatim>\<open>switch (condition.operator)\<close> on the two operand strings.\<close>

fun compareValues :: "'n Number \<Rightarrow> operator \<Rightarrow> string \<Rightarrow> string \<Rightarrow> bool" where
  "compareValues N OpEq valueStr cv =
     (if bothNumeric N valueStr cv then num_eq N (parseFloat N valueStr) (parseFloat N cv)
      else toLowerCase valueStr = toLowerCase cv)"
| "compareValues N OpNe valueStr cv =
     (if bothNumeric N valueStr cv then \<not> num_eq N (parseFloat N valueStr) (parseFloat N cv)
      else toLowerCase valueStr \<noteq> toLowerCase cv)"
| "compareValues N OpContains valueStr cv = includesStr (toLowerCase valueStr) (toLowerCase cv)"
| "compareValues N OpNotContains valueStr cv =
     (\<not> includesStr (toLowerCase valueStr) (toLowerCase cv))"
| "compareValues N OpIn valueStr cv =
     (toLowerCase valueStr \<in> set (map (\<lambda>v. toLowerCase (trim v)) (split '','' cv)))"
| "compareValues N OpGt valueStr cv =
     (bothNumeric N valueStr cv \<and> num_lt N (parseFloat N cv) (parseFloat N valueStr))"
| "compareValues N OpGe valueStr cv =
     (bothNumeric N valueStr cv \<and> num_le N (parseFloat N cv) (parseFloat N valueStr))"
| "compareValues N OpLt valueStr cv =
     (bothNumeric N valueStr cv \<and> num_lt N (parseFloat N valueStr) (parseFloat N cv))"
| "compareValues N OpLe valueStr cv =
     (bothNumeric N valueStr cv \<and> num_le N (parseFloat N valueStr) (parseFloat N cv))"

definition evaluateCondition ::
  "'n Number \<Rightarrow> RuleCondition \<Rightarrow> SurveyResponse list \<Rightarrow> 'n computed option \<Rightarrow> bool" where
  "evaluateCondition N condition responses computedVariables =
     (case actualValue N condition responses computedVariables of
        None \<Rightarrow> c_operator condition = OpNe
      | Some valueStr \<Rightarrow>
          (case conditionValue condition responses of
             None \<Rightarrow> c_operator condition = OpNe
           | Some cv \<Rightarrow> compareValues N (c_operator condition) valueStr cv))"

section \<open>Rule scorer\<close>

text \<open>
  \<^verbatim>\<open>[...xs].sort(cmp)\<close>: the host's sort is stable; for a comparator that is a consistent
  ordering every stable sort returns this list.
\<close>

fun insertBy :: "('a \<Rightarrow> 'a \<Rightarrow> int) \<Rightarrow> 'a \<Rightarrow> 'a list \<Rightarrow> 'a list" where
  "insertBy cmp x [] = [x]"
| "insertBy cmp x (y # ys) = (if cmp x y \<le> 0 then x # y # ys else y # insertBy cmp x ys)"

definition sortBy :: "('a \<Rightarrow> 'a \<Rightarrow> int) \<Rightarrow> 'a list \<Rightarrow> 'a list" where
  "sortBy cmp xs = foldr (insertBy cmp) xs []"

text \<open>One rule's conditions under its logical operator (\<open>AND\<close> unless it is \<open>OR\<close>).\<close>

definition conditionsMet ::
  "'n Number \<Rightarrow> SelectionRule \<Rightarrow> SurveyResponse list \<Rightarrow> 'n computed option \<Rightarrow> bool" where
  "conditionsMet N rule responses cv =
     (if rule_logicalOperator rule = Some OR
      then list_ex (\<lambda>c. evaluateCondition N c responses cv) (rule_conditions rule)
      else list_all (\<lambda>c. evaluateCondition N c responses cv) (rule_conditions rule))"

text \<open>
  The body of the \<^verbatim>\<open>for (const rule of sortedRules)\<close> loop; the state is
  \<open>(matchedRules, highestPriorityMatch)\<close>.
\<close>

definition ruleStep ::
  "'n Number \<Rightarrow> SurveyResponse list \<Rightarrow> 'n computed option \<Rightarrow> SelectionRule \<Rightarrow>
   nat \<times> bool \<Rightarrow> nat \<times> bool" where
  "ruleStep N responses cv rule st =
     (if rule_conditions rule = [] then st
      else if conditionsMet N rule responses cv then (fst st + 1, True)
      else st)"

text \<open>\<^verbatim>\<open>template.rules || []\<close>\<close>

definition rulesOf :: "Template \<Rightarrow> SelectionRule list" where
  "rulesOf template = (case t_rules template of None \<Rightarrow> [] | Some rs \<Rightarrow> rs)"

definition evaluateRules ::
  "'n Number \<Rightarrow> Template \<Rightarrow> SurveyResponse list \<Rightarrow> 'n computed option \<Rightarrow> RuleEvaluationResult" where
  "evaluateRules N template responses cv =
     (let rules = rulesOf template
      in if rules = [] then
           \<lparr> templateId = t_id template, score = 0, matchedRules = 0, totalRules = 0,
             isAlwaysInclude = False, isManualOnly = False \<rparr>
         else if find rule_isAlwaysInclude rules \<noteq> None then
           \<lparr> templateId = t_id template, score = 1, matchedRules = length rules,
             totalRules = length rules, isAlwaysInclude = True, isManualOnly = False \<rparr>
         else if find rule_isManualOnly rules \<noteq> None then
           \<lparr> templateId = t_id template, score = 0, matchedRules = 0,
             totalRules = length rules, isAlwaysInclude = False, isManualOnly = True \<rparr>
         else
           let sortedRules = sortBy (\<lambda>a b. rule_priority a - rule_priority b) rules;
               matched = fst (fold (ruleStep N responses cv) sortedRules (0, False));
               total = length (filter (\<lambda>r. rule_conditions r \<noteq> []) rules)
           in \<lparr> templateId = t_id template,
                score = (if total > 0 then of_nat matched / of_nat total else 0),
                matchedRules = matched, totalRules = total,
                isAlwaysInclude = False, isManualOnly = False \<rparr>)"

section \<open>Template selector\<close>

text \<open>The body of the \<^verbatim>\<open>for (const template of activeTemplates)\<close> loop.\<close>

definition selectStep ::
  "'n Number \<Rightarrow> SurveyResponse list \<Rightarrow> 'n computed option \<Rightarrow> Template \<Rightarrow>
   Template list \<times> Template list \<times> Template list \<Rightarrow>
   Template list \<times> Template list \<times> Template list" where
  "selectStep N responses cv template st =
     (case st of (req, sug, opt) \<Rightarrow>
        let evaluation = evaluateRules N template responses cv
        in if isAlwaysInclude evaluation then (req @ [template], sug, opt)
           else if isManualOnly evaluation then (req, sug, opt @ [template])
           else if totalRules evaluation = 0 then (req, sug, opt @ [template])
           else if score evaluation \<ge> 1 then (req @ [template], sug, opt)
           else if score evaluation > 1 / 2 then (req, sug @ [template], opt)
           else (req, sug, opt @ [template]))"

text \<open>
  \<^verbatim>\<open>(a.displayName || a.name).localeCompare(b.displayName || b.name)\<close>; the collation
  \<open>localeCompare\<close> is the host's and is a parameter.
\<close>

definition displayKey :: "Template \<Rightarrow> string" where
  "displayKey t = (if t_displayName t \<noteq> [] then t_displayName t else t_name t)"

definition selectTemplates ::
  "'n Number \<Rightarrow> (string \<Rightarrow> string \<Rightarrow> int) \<Rightarrow> SurveyResponse list \<Rightarrow> Template list \<Rightarrow>
   'n computed option \<Rightarrow> TemplateSelection" where
  "selectTemplates N localeCompare responses templates cv =
     (let activeTemplates = filter t_isActive templates;
          sortByName = (\<lambda>a b. localeCompare (displayKey a) (displayKey b))
      in case fold (selectStep N responses cv) activeTemplates ([], [], []) of
           (req, sug, opt) \<Rightarrow>
             \<lparr> required = sortBy sortByName req,
               suggested = sortBy sortByName sug,
               optional = sortBy sortByName opt \<rparr>)"


section \<open>Expression evaluator\<close>

text \<open>\<^verbatim>\<open>expression.replace(/\s+/g, '')\<close>\<close>

definition removeWhitespace :: "string \<Rightarrow> string" where
  "removeWhitespace s = filter (\<lambda>c. \<not> isSpaceChar c) s"

text \<open>
  \<^verbatim>\<open>expression.match(/(.+?)([+\-])(?!$)(.+)/)\<close> and \<^verbatim>\<open>expression.match(/(.+?)([*/])(.+)/)\<close>.
  The first group is lazy and must be non-empty, the last must be non-empty: the match
  splits at the leftmost operator character that is neither the first nor the last
  character of the string.  \<open>scanOperator\<close> walks the string with the text already
  passed in \<open>left\<close>.
\<close>

fun scanOperator :: "(char \<Rightarrow> bool) \<Rightarrow> string \<Rightarrow> string \<Rightarrow> (string \<times> char \<times> string) option" where
  "scanOperator isOp left [] = None"
| "scanOperator isOp left (c # rest) =
     (if isOp c \<and> left \<noteq> [] \<and> rest \<noteq> [] then Some (left, c, rest)
      else scanOperator isOp (left @ [c]) rest)"

definition matchAddSub :: "string \<Rightarrow> (string \<times> char \<times> string) option" where
  "matchAddSub e = scanOperator (\<lambda>c. c = CHR ''+'' \<or> c = CHR ''-'') [] e"

definition matchMulDiv :: "string \<Rightarrow> (string \<times> char \<times> string) option" where
  "matchMulDiv e = scanOperator (\<lambda>c. c = CHR ''*'' \<or> c = CHR ''/'') [] e"

text \<open>\<^verbatim>\<open>/[+\-*/]$/.test(left)\<close>\<close>

definition endsWithOperator :: "string \<Rightarrow> bool" where
  "endsWithOperator left =
     (left \<noteq> [] \<and> last left \<in> {CHR ''+'', CHR ''-'', CHR ''*'', CHR ''/''})"

text \<open>
  \<^verbatim>\<open>expression.replace(/\(([^()]+)\)/g, (_, inner) => f(inner))\<close>: every parenthesis pair
  with a non-empty, parenthesis-free content is replaced, left to right, by what the
  callback returns for the content.  The callback may fail to return (\<open>None\<close>).
\<close>

definition notParen :: "char \<Rightarrow> bool" where
  "notParen c = (c \<noteq> CHR ''('' \<and> c \<noteq> CHR '')'')"

function replaceInnermost :: "(string \<Rightarrow> string option) \<Rightarrow> string \<Rightarrow> string option" where
  "replaceInnermost f [] = Some []"
| "replaceInnermost f (c # rest) =
     (if c = CHR ''('' \<and> takeWhile notParen rest \<noteq> [] \<and> take 1 (dropWhile notParen rest) = '')''
      then (case f (takeWhile notParen rest) of
              None \<Rightarrow> None
            | Some v \<Rightarrow> map_option ((@) v) (replaceInnermost f (drop 1 (dropWhile notParen rest))))
      else map_option ((#) c) (replaceInnermost f rest))"
  by pat_completeness auto
termination
  by (relation "measure (\<lambda>(f, s). length s)")
     (auto simp: less_Suc_eq_le intro: order_trans [OF diff_le_self length_dropWhile_le])

text \<open>\<^verbatim>\<open>parseFloat(expression) || 0\<close>: \<open>NaN\<close> and zero both give 0.\<close>

definition parseFloatOrZero :: "'n Number \<Rightarrow> string \<Rightarrow> 'n" where
  "parseFloatOrZero N e =
     (if isNaN N (parseFloat N e) \<or> num_eq N (parseFloat N e) (num_of_nat N 0)
      then num_of_nat N 0 else parseFloat N e)"

text \<open>
  \<open>evaluateMathExpression\<close> recurses on the operands of a split and, through the
  callback, on the content of every parenthesis pair; its \<^verbatim>\<open>while (expression.includes('('))\<close>
  loop has no bound.  The model counts recursion depth and loop rounds with a fuel
  argument: \<open>None\<close> means that the fuel did not suffice.
\<close>

fun evaluateMathExpression :: "'n Number \<Rightarrow> nat \<Rightarrow> string \<Rightarrow> 'n option"
  and resolveParentheses :: "'n Number \<Rightarrow> nat \<Rightarrow> string \<Rightarrow> string option" where
  "evaluateMathExpression N 0 expression = None"
| "evaluateMathExpression N (Suc k) expression =
     (case resolveParentheses N k (removeWhitespace expression) of
        None \<Rightarrow> None
      | Some e \<Rightarrow>
          (case (case matchAddSub e of
                   None \<Rightarrow> None
                 | Some (left, opr, right) \<Rightarrow>
                     if endsWithOperator left then None else Some (left, opr, right)) of
             Some (left, opr, right) \<Rightarrow>
               (case evaluateMathExpression N k left of
                  None \<Rightarrow> None
                | Some leftVal \<Rightarrow>
                    (case evaluateMathExpression N k right of
                       None \<Rightarrow> None
                     | Some rightVal \<Rightarrow>
                         Some (if opr = CHR ''+'' then num_add N leftVal rightVal
                               else num_sub N leftVal rightVal)))
           | None \<Rightarrow>
               (case matchMulDiv e of
                  Some (left, opr, right) \<Rightarrow>
                    (case evaluateMathExpression N k left of
                       None \<Rightarrow> None
                     | Some leftVal \<Rightarrow>
                         (case evaluateMathExpression N k right of
                            None \<Rightarrow> None
                          | Some rightVal \<Rightarrow>
                              Some (if opr = CHR ''*'' then num_mul N leftVal rightVal
                                    else num_div N leftVal rightVal)))
                | None \<Rightarrow> Some (parseFloatOrZero N e))))"
| "resolveParentheses N 0 e = (if CHR ''('' \<in> set e then None else Some e)"
| "resolveParentheses N (Suc k) e =
     (if CHR ''('' \<in> set e
      then (case replaceInnermost
                   (\<lambda>inner. map_option (numToString N) (evaluateMathExpression N k inner)) e of
              None \<Rightarrow> None
            | Some e' \<Rightarrow> resolveParentheses N k e')
      else Some e)"







section \<open>Case-insensitive aliases\<close>








section \<open>The signing date derived from the cash-in date\<close>

text \<open>
  A \<^verbatim>\<open>Date\<close> is modelled by its local calendar fields: year, month (0 to 11) and day.
  The engine builds one with \<^verbatim>\<open>new Date(year, month, 0)\<close>, reads \<^verbatim>\<open>getDay()\<close>, steps back
  with \<^verbatim>\<open>setDate(getDate() - 1)\<close> and prints the fields; all of these act on the local
  calendar date, and the round trip \<^verbatim>\<open>formatDate(d.toISOString(), ...)\<close> reads back the
  local fields of the same instant.
\<close>

type_synonym date = "int \<times> int \<times> int"

definition isLeapYear :: "int \<Rightarrow> bool" where
  "isLeapYear y = (y mod 4 = 0 \<and> (y mod 100 \<noteq> 0 \<or> y mod 400 = 0))"

definition daysInMonth :: "int \<Rightarrow> int \<Rightarrow> int" where
  "daysInMonth y m =
     (if m = 1 then (if isLeapYear y then 29 else 28)
      else if m = 3 \<or> m = 5 \<or> m = 8 \<or> m = 10 then 30
      else 31)"

text \<open>The day number of 1 January (day 0 is 1 January 1970), as the language defines it.\<close>

definition dayFromYear :: "int \<Rightarrow> int" where
  "dayFromYear y =
     365 * (y - 1970) + (y - 1969) div 4 - (y - 1901) div 100 + (y - 1601) div 400"

definition daysBeforeMonth :: "int \<Rightarrow> int \<Rightarrow> int" where
  "daysBeforeMonth y m =
     [0, 31, 59, 90, 120, 151, 181, 212, 243, 273, 304, 334] ! nat m
       + (if 2 \<le> m \<and> isLeapYear y then 1 else 0)"

definition dayNumber :: "date \<Rightarrow> int" where
  "dayNumber dt = (case dt of (y, m, d) \<Rightarrow> dayFromYear y + daysBeforeMonth y m + d - 1)"

text \<open>\<^verbatim>\<open>getDay()\<close>: 0 is Sunday, 6 is Saturday; day 0 was a Thursday.\<close>

definition getDay :: "date \<Rightarrow> int" where
  "getDay dt = (dayNumber dt + 4) mod 7"

text \<open>The last day of the month before month \<open>m\<close> of year \<open>y\<close>.\<close>

definition lastDayBefore :: "int \<Rightarrow> int \<Rightarrow> date" where
  "lastDayBefore y m = (if m = 0 then (y - 1, 11, 31) else (y, m - 1, daysInMonth y (m - 1)))"

text \<open>
  \<^verbatim>\<open>new Date(year, month, 0)\<close>: a year from 0 to 99 means 1900 + year, a month index
  beyond 11 carries into the year, and day 0 is the day before the first of the month.
\<close>

definition newDateDay0 :: "int \<Rightarrow> int \<Rightarrow> date" where
  "newDateDay0 year month =
     (let yr = (if 0 \<le> year \<and> year \<le> 99 then 1900 + year else year)
      in lastDayBefore (yr + month div 12) (month mod 12))"

text \<open>\<^verbatim>\<open>d.setDate(d.getDate() - 1)\<close>\<close>

definition prevDay :: "date \<Rightarrow> date" where
  "prevDay dt = (case dt of (y, m, d) \<Rightarrow> if 1 < d then (y, m, d - 1) else lastDayBefore y m)"

text \<open>
  \<^verbatim>\<open>while (d.getDay() === 0 || d.getDay() === 6) d.setDate(d.getDate() - 1)\<close>, with a
  bound on the number of rounds (\<open>None\<close>: the bound was too small).
\<close>

fun lastBusinessDay :: "nat \<Rightarrow> date \<Rightarrow> date option" where
  "lastBusinessDay 0 dt = None"
| "lastBusinessDay (Suc k) dt =
     (if getDay dt = 0 \<or> getDay dt = 6 then lastBusinessDay k (prevDay dt) else Some dt)"

text \<open>\<^verbatim>\<open>parseInt(s, 10)\<close>: white space, an optional sign, the leading digits; \<open>None\<close> is \<open>NaN\<close>.\<close>

definition parseInt :: "string \<Rightarrow> int option" where
  "parseInt s =
     (let s1 = dropWhile isSpaceChar s;
          s2 = (if take 1 s1 = ''-'' \<or> take 1 s1 = ''+'' then drop 1 s1 else s1)
      in if takeWhile isDigitChar s2 = [] then None
         else Some (if take 1 s1 = ''-'' then - readNat (takeWhile isDigitChar s2)
                    else readNat (takeWhile isDigitChar s2)))"

text \<open>\<^verbatim>\<open>parseInt(dateParts[i], 10)\<close>; a missing part is \<open>undefined\<close> and parses to \<open>NaN\<close>.\<close>

definition partAt :: "string list \<Rightarrow> nat \<Rightarrow> int option" where
  "partAt parts i = (if i < length parts then parseInt (parts ! i) else None)"

text \<open>
  The year, 0-based month and day read from the answer: split at \<^verbatim>\<open>-\<close> when there is one,
  otherwise left to the host's date parser (a parameter; \<open>None\<close> for an invalid date).
\<close>

definition parseCashin :: "(string \<Rightarrow> date option) \<Rightarrow> string \<Rightarrow> date option" where
  "parseCashin parseDate cashinValue =
     (if CHR ''-'' \<in> set cashinValue then
        (case (partAt (split ''-'' cashinValue) 0, partAt (split ''-'' cashinValue) 1,
               partAt (split ''-'' cashinValue) 2) of
           (Some y, Some m, Some d) \<Rightarrow> Some (y, m - 1, d)
         | _ \<Rightarrow> None)
      else parseDate cashinValue)"

text \<open>The target month: the same month before the 15th, the next one from the 15th on.\<close>

definition targetMonth :: "date \<Rightarrow> int \<times> int" where
  "targetMonth dt =
     (case dt of (cashinYear, cashinMonth, dayOfMonth) \<Rightarrow>
        let tm = (if dayOfMonth < 15 then cashinMonth else cashinMonth + 1)
        in if tm > 11 then (cashinYear + 1, 0) else (cashinYear, tm))"

text \<open>
  The date behind \<open>SHSIGNDate\<close>.  A date beyond the host's range (100 000 000 days
  either side of 1970) is invalid and throws when printed; the \<^verbatim>\<open>catch\<close> then leaves
  the variable unset, as an unreadable answer does.
\<close>

definition shsignDate :: "nat \<Rightarrow> (string \<Rightarrow> date option) \<Rightarrow> string \<Rightarrow> date option" where
  "shsignDate fuel parseDate cashinValue =
     (case parseCashin parseDate cashinValue of
        None \<Rightarrow> None
      | Some dt \<Rightarrow>
          (case targetMonth dt of (targetYear, tm) \<Rightarrow>
             if \<bar>dayNumber (newDateDay0 targetYear (tm + 1))\<bar> \<le> 100000000
             then lastBusinessDay fuel (newDateDay0 targetYear (tm + 1))
             else None))"

text \<open>The three \<open>formatDate\<close> patterns used for the variable.\<close>

definition showInt :: "int \<Rightarrow> string" where
  "showInt i = (if i < 0 then ''-'' @ showNat (- i) else showNat i)"

definition pad2 :: "int \<Rightarrow> string" where
  "pad2 n = padLeft 2 (showInt n)"

definition MONTH_NAMES_SHORT :: "string list" where
  "MONTH_NAMES_SHORT =
     [''Jan'', ''Feb'', ''Mar'', ''Apr'', ''May'', ''Jun'',
      ''Jul'', ''Aug'', ''Sep'', ''Oct'', ''Nov'', ''Dec'']"

definition formatMedium :: "date \<Rightarrow> string" where
  "formatMedium dt =
     (case dt of (y, m, d) \<Rightarrow> MONTH_NAMES_SHORT ! nat m @ '' '' @ showInt d @ '', '' @ showInt y)"

definition formatShort :: "date \<Rightarrow> string" where
  "formatShort dt = (case dt of (y, m, d) \<Rightarrow> pad2 (m + 1) @ ''/'' @ pad2 d @ ''/'' @ showInt y)"

definition formatISO :: "date \<Rightarrow> string" where
  "formatISO dt = (case dt of (y, m, d) \<Rightarrow> showInt y @ ''-'' @ pad2 (m + 1) @ ''-'' @ pad2 d)"

text \<open>The variables this step adds for a non-empty cash-in answer.\<close>

definition shsignVariables ::
  "nat \<Rightarrow> (string \<Rightarrow> date option) \<Rightarrow> string \<Rightarrow> (string \<times> string) list" where
  "shsignVariables fuel parseDate cashinValue =
     (case shsignDate fuel parseDate cashinValue of
        None \<Rightarrow> []
      | Some dt \<Rightarrow>
          [(''SHSIGNDate'', formatMedium dt),
           (''SHSIGNDateShort'', formatShort dt),
           (''SHSIGNDateISO'', formatISO dt)])"

text \<open>A byte-wise comparison, standing in for the collation when the selector is run.\<close>

fun compareStrings :: "string \<Rightarrow> string \<Rightarrow> int" where
  "compareStrings [] [] = 0"
| "compareStrings [] (y # ys) = - 1"
| "compareStrings (x # xs) [] = 1"
| "compareStrings (x # xs) (y # ys) =
     (if (of_char x :: nat) < of_char y then - 1
      else if (of_char y :: nat) < of_char x then 1
      else compareStrings xs ys)"

subsection \<open>Sample inputs\<close>

definition cond :: "string \<Rightarrow> operator \<Rightarrow> string \<Rightarrow> RuleCondition" where
  "cond q opr v =
     \<lparr> c_questionId = q, c_operator = opr, c_value = v, c_valueType = None,
       c_valueQuestionId = None, c_sourceType = None \<rparr>"

definition rule :: "RuleCondition list \<Rightarrow> int \<Rightarrow> SelectionRule" where
  "rule cs p =
     \<lparr> rule_conditions = cs, rule_logicalOperator = None, rule_priority = p,
       rule_isAlwaysInclude = False, rule_isManualOnly = False \<rparr>"

definition template :: "string \<Rightarrow> SelectionRule list \<Rightarrow> bool \<Rightarrow> Template" where
  "template n rs active =
     \<lparr> t_id = n, t_name = n, t_displayName = [], t_rules = Some rs, t_isActive = active \<rparr>"

definition sampleResponses :: "SurveyResponse list" where
  "sampleResponses =
     [\<lparr> r_questionId = ''state'', r_value = VString ''Delaware'' \<rparr>,
      \<lparr> r_questionId = ''directorCount'', r_value = VString ''5'' \<rparr>]"

definition ruleState :: SelectionRule where
  "ruleState = rule [cond ''state'' OpEq ''delaware''] 2"

definition ruleMany :: SelectionRule where
  "ruleMany = rule [cond ''directorCount'' OpGt ''30''] 1"

definition tAlways :: Template where
  "tAlways = template ''always'' [ruleMany\<lparr> rule_isAlwaysInclude := True \<rparr>] True"

definition tFull :: Template where
  "tFull = template ''full'' [ruleState] True"

definition tHalf :: Template where
  "tHalf = template ''half'' [ruleState, ruleMany] True"

definition tManual :: Template where
  "tManual = template ''manual'' [ruleState\<lparr> rule_isManualOnly := True \<rparr>] True"

definition tNoRules :: Template where
  "tNoRules = template ''norules'' [] True"

definition tInactive :: Template where
  "tInactive = template ''inactive'' [ruleState] False"



definition sampleTemplates :: "Template list" where
  "sampleTemplates = [tInactive, tHalf, tAlways, tManual, tFull, tNoRules]"

subsection \<open>Auxiliary notions used in the proofs\<close>

text \<open>The bucket tests of the selector loop, and a rule with its priority forgotten.\<close>

definition inRequired :: "RuleEvaluationResult \<Rightarrow> bool" where
  "inRequired e = (isAlwaysInclude e \<or> (\<not> isManualOnly e \<and> totalRules e \<noteq> 0 \<and> score e \<ge> 1))"

definition inSuggested :: "RuleEvaluationResult \<Rightarrow> bool" where
  "inSuggested e = (\<not> isAlwaysInclude e \<and> \<not> isManualOnly e \<and> totalRules e \<noteq> 0 \<and> \<not> score e \<ge> 1 \<and> score e > 1 / 2)"

definition erasePriority :: "SelectionRule \<Rightarrow> SelectionRule" where
  "erasePriority r = r\<lparr> rule_priority := 0 \<rparr>"

section \<open>Verification\<close>

subsection \<open>Rule scorer and template selector\<close>

lemma mset_insertBy: "mset (insertBy cmp x ys) = add_mset x (mset ys)"
  by (induction ys) auto

lemma mset_sortBy: "mset (sortBy cmp xs) = mset xs"
  by (induction xs) (auto simp: sortBy_def mset_insertBy)

lemma fold_ruleStep:
  "fst (fold (ruleStep N rs cv) xs st) =
     fst st + length (filter (\<lambda>r. rule_conditions r \<noteq> [] \<and> conditionsMet N r rs cv) xs)"
  by (induction xs arbitrary: st) (auto simp: ruleStep_def)

lemma length_filter_mset: "length (filter P xs) = size (filter_mset P (mset xs))"
  by (induction xs) auto

lemma matched_sortBy:
  "fst (fold (ruleStep N rs cv) (sortBy cmp xs) (0, False)) =
     length (filter (\<lambda>r. rule_conditions r \<noteq> [] \<and> conditionsMet N r rs cv) xs)"
  by (simp add: fold_ruleStep length_filter_mset mset_sortBy)

lemma find_None_iff': "(find P xs \<noteq> None) = (\<exists>x\<in>set xs. P x)"
  by (induction xs) auto


lemma evaluateRules_unfold:
  "evaluateRules N t rs cv =
     (if rulesOf t = [] then
        \<lparr> templateId = t_id t, score = 0, matchedRules = 0, totalRules = 0,
          isAlwaysInclude = False, isManualOnly = False \<rparr>
      else if (\<exists>r\<in>set (rulesOf t). rule_isAlwaysInclude r) then
        \<lparr> templateId = t_id t, score = 1, matchedRules = length (rulesOf t),
          totalRules = length (rulesOf t), isAlwaysInclude = True, isManualOnly = False \<rparr>
      else if (\<exists>r\<in>set (rulesOf t). rule_isManualOnly r) then
        \<lparr> templateId = t_id t, score = 0, matchedRules = 0,
          totalRules = length (rulesOf t), isAlwaysInclude = False, isManualOnly = True \<rparr>
      else
        \<lparr> templateId = t_id t,
          score = (if length (filter (\<lambda>r. rule_conditions r \<noteq> []) (rulesOf t)) > 0
                   then of_nat (length (filter (\<lambda>r. rule_conditions r \<noteq> [] \<and> conditionsMet N r rs cv) (rulesOf t)))
                        / of_nat (length (filter (\<lambda>r. rule_conditions r \<noteq> []) (rulesOf t)))
                   else 0),
          matchedRules = length (filter (\<lambda>r. rule_conditions r \<noteq> [] \<and> conditionsMet N r rs cv) (rulesOf t)),
          totalRules = length (filter (\<lambda>r. rule_conditions r \<noteq> []) (rulesOf t)),
          isAlwaysInclude = False, isManualOnly = False \<rparr>)"
  unfolding evaluateRules_def Let_def find_None_iff' matched_sortBy
  by simp


lemma conditionsMet_iff:
  "conditionsMet N r rs cv =
     (if rule_logicalOperator r = Some OR
      then (\<exists>c\<in>set (rule_conditions r). evaluateCondition N c rs cv)
      else (\<forall>c\<in>set (rule_conditions r). evaluateCondition N c rs cv))"
  by (simp add: conditionsMet_def list_ex_iff list_all_iff)

text \<open>
  Claim C2.  \<open>evaluateRules\<close> returns score 0 with both flags false for a template without
  rules; score 1 with \<open>isAlwaysInclude\<close> as soon as one rule is always-include; otherwise
  score 0 with \<open>isManualOnly\<close> as soon as one rule is manual-only; otherwise a rule with at
  least one condition counts as matched iff its conditions hold under its logical
  operator (all of them for \<open>AND\<close>, one of them for \<open>OR\<close>), and the score is
  matched rules over rules with conditions (0 when there are none).
\<close>

theorem evaluateRules_spec:
  "(let rules = rulesOf t;
        e = evaluateRules N t rs cv;
        holds = (\<lambda>r. if rule_logicalOperator r = Some OR
                      then (\<exists>c\<in>set (rule_conditions r). evaluateCondition N c rs cv)
                      else (\<forall>c\<in>set (rule_conditions r). evaluateCondition N c rs cv))
    in (rules = [] \<longrightarrow> score e = 0 \<and> \<not> isAlwaysInclude e \<and> \<not> isManualOnly e)
     \<and> ((\<exists>r\<in>set rules. rule_isAlwaysInclude r) \<longrightarrow> score e = 1 \<and> isAlwaysInclude e)
     \<and> ((\<forall>r\<in>set rules. \<not> rule_isAlwaysInclude r) \<and> (\<exists>r\<in>set rules. rule_isManualOnly r)
          \<longrightarrow> score e = 0 \<and> isManualOnly e \<and> \<not> isAlwaysInclude e)
     \<and> ((\<forall>r\<in>set rules. \<not> rule_isAlwaysInclude r \<and> \<not> rule_isManualOnly r) \<longrightarrow>
           totalRules e = length (filter (\<lambda>r. rule_conditions r \<noteq> []) rules)
         \<and> matchedRules e = length (filter (\<lambda>r. rule_conditions r \<noteq> [] \<and> holds r) rules)
         \<and> score e = (if totalRules e = 0 then 0
                       else of_nat (matchedRules e) / of_nat (totalRules e))
         \<and> \<not> isAlwaysInclude e \<and> \<not> isManualOnly e))"
proof -
  define rules where "rules = rulesOf t"
  define e where "e = evaluateRules N t rs cv"
  have e: "e = (if rules = [] then
        \<lparr> templateId = t_id t, score = 0, matchedRules = 0, totalRules = 0,
          isAlwaysInclude = False, isManualOnly = False \<rparr>
      else if (\<exists>r\<in>set rules. rule_isAlwaysInclude r) then
        \<lparr> templateId = t_id t, score = 1, matchedRules = length rules,
          totalRules = length rules, isAlwaysInclude = True, isManualOnly = False \<rparr>
      else if (\<exists>r\<in>set rules. rule_isManualOnly r) then
        \<lparr> templateId = t_id t, score = 0, matchedRules = 0,
          totalRules = length rules, isAlwaysInclude = False, isManualOnly = True \<rparr>
      else
        \<lparr> templateId = t_id t,
          score = (if length (filter (\<lambda>r. rule_conditions r \<noteq> []) rules) > 0
                   then of_nat (length (filter (\<lambda>r. rule_conditions r \<noteq> [] \<and> conditionsMet N r rs cv) rules))
                        / of_nat (length (filter (\<lambda>r. rule_conditions r \<noteq> []) rules))
                   else 0),
          matchedRules = length (filter (\<lambda>r. rule_conditions r \<noteq> [] \<and> conditionsMet N r rs cv) rules),
          totalRules = length (filter (\<lambda>r. rule_conditions r \<noteq> []) rules),
          isAlwaysInclude = False, isManualOnly = False \<rparr>)"
    unfolding e_def rules_def by (rule evaluateRules_unfold)
  have c1: "rules = [] \<longrightarrow> score e = 0 \<and> \<not> isAlwaysInclude e \<and> \<not> isManualOnly e"
    by (simp add: e)
  have c2: "(\<exists>r\<in>set rules. rule_isAlwaysInclude r) \<longrightarrow> score e = 1 \<and> isAlwaysInclude e"
    by (auto simp: e)
  have c3: "(\<forall>r\<in>set rules. \<not> rule_isAlwaysInclude r) \<and> (\<exists>r\<in>set rules. rule_isManualOnly r)
          \<longrightarrow> score e = 0 \<and> isManualOnly e \<and> \<not> isAlwaysInclude e"
    by (auto simp: e)
  have c4: "(\<forall>r\<in>set rules. \<not> rule_isAlwaysInclude r \<and> \<not> rule_isManualOnly r) \<longrightarrow>
           totalRules e = length (filter (\<lambda>r. rule_conditions r \<noteq> []) rules)
         \<and> matchedRules e = length (filter (\<lambda>r. rule_conditions r \<noteq> [] \<and> conditionsMet N r rs cv) rules)
         \<and> score e = (if totalRules e = 0 then 0
                       else of_nat (matchedRules e) / of_nat (totalRules e))
         \<and> \<not> isAlwaysInclude e \<and> \<not> isManualOnly e"
    by (auto simp: e)
  show ?thesis
    unfolding Let_def conditionsMet_iff [symmetric]
    using c1 c2 c3 c4 unfolding e_def rules_def by blast
qed


lemma eval_facts:
  "isAlwaysInclude (evaluateRules N t rs cv) \<Longrightarrow> score (evaluateRules N t rs cv) = 1"
  "isManualOnly (evaluateRules N t rs cv) \<Longrightarrow> score (evaluateRules N t rs cv) = 0"
  "totalRules (evaluateRules N t rs cv) = 0 \<Longrightarrow> score (evaluateRules N t rs cv) = 0"
  by (auto simp: evaluateRules_unfold split: if_splits)

lemma eval_half:
  assumes "2 * matchedRules (evaluateRules N t rs cv) = totalRules (evaluateRules N t rs cv)"
    and "0 < totalRules (evaluateRules N t rs cv)"
  shows "score (evaluateRules N t rs cv) = 1 / 2"
proof -
  let ?e = "evaluateRules N t rs cv"
  have s: "score ?e = (if 0 < totalRules ?e then of_nat (matchedRules ?e) / of_nat (totalRules ?e) else 0)"
    using assms by (auto simp: evaluateRules_unfold split: if_splits)
  have "(of_nat (totalRules ?e) :: rat) = 2 * of_nat (matchedRules ?e)"
    using assms(1) by (metis of_nat_mult of_nat_numeral)
  moreover have "(of_nat (totalRules ?e) :: rat) \<noteq> 0" using assms(2) by simp
  ultimately show ?thesis using s assms(2) by (simp add: field_simps)
qed

lemma fold_selectStep:
  "fold (selectStep N rs cv) xs (a, b, c) =
     (a @ filter (\<lambda>t. inRequired (evaluateRules N t rs cv)) xs,
      b @ filter (\<lambda>t. inSuggested (evaluateRules N t rs cv)) xs,
      c @ filter (\<lambda>t. \<not> inRequired (evaluateRules N t rs cv) \<and> \<not> inSuggested (evaluateRules N t rs cv)) xs)"
  by (induction xs arbitrary: a b c)
     (auto simp: selectStep_def Let_def inRequired_def inSuggested_def)

lemma inRequired_iff:
  "inRequired (evaluateRules N t rs cv) =
     (score (evaluateRules N t rs cv) \<ge> 1 \<or> isAlwaysInclude (evaluateRules N t rs cv))"
  by (auto simp: inRequired_def evaluateRules_unfold split: if_splits)

lemma inSuggested_iff:
  "inSuggested (evaluateRules N t rs cv) =
     (1 / 2 < score (evaluateRules N t rs cv) \<and> score (evaluateRules N t rs cv) < 1)"
  by (auto simp: inSuggested_def evaluateRules_unfold split: if_splits)

lemma selectTemplates_unfold:
  "selectTemplates N lc rs ts cv =
     \<lparr> required = sortBy (\<lambda>a b. lc (displayKey a) (displayKey b))
         (filter (\<lambda>t. inRequired (evaluateRules N t rs cv)) (filter t_isActive ts)),
       suggested = sortBy (\<lambda>a b. lc (displayKey a) (displayKey b))
         (filter (\<lambda>t. inSuggested (evaluateRules N t rs cv)) (filter t_isActive ts)),
       optional = sortBy (\<lambda>a b. lc (displayKey a) (displayKey b))
         (filter (\<lambda>t. \<not> inRequired (evaluateRules N t rs cv) \<and> \<not> inSuggested (evaluateRules N t rs cv)) (filter t_isActive ts)) \<rparr>"
  by (simp add: selectTemplates_def Let_def fold_selectStep)

text \<open>
  Claim C1.  \<open>selectTemplates\<close> drops inactive templates and partitions the others:
  required holds exactly those with score at least 1 or always-include, suggested those
  with score strictly between one half and 1, optional all the rest.  A template with
  exactly half of its rules matched has score one half and lands in optional, not in
  suggested.  (The buckets are compared as multisets: each is sorted by name afterwards.)
\<close>

theorem selectTemplates_partition:
  "(let sel = selectTemplates N lc rs ts cv;
        ev = (\<lambda>t. evaluateRules N t rs cv)
    in mset (required sel) =
         filter_mset (\<lambda>t. t_isActive t \<and> (score (ev t) \<ge> 1 \<or> isAlwaysInclude (ev t))) (mset ts)
     \<and> mset (suggested sel) =
         filter_mset (\<lambda>t. t_isActive t \<and> 1 / 2 < score (ev t) \<and> score (ev t) < 1) (mset ts)
     \<and> mset (optional sel) =
         filter_mset (\<lambda>t. t_isActive t \<and> \<not> (score (ev t) \<ge> 1 \<or> isAlwaysInclude (ev t))
                          \<and> \<not> (1 / 2 < score (ev t) \<and> score (ev t) < 1)) (mset ts)
     \<and> (\<forall>t\<in>set ts. t_isActive t \<and> 2 * matchedRules (ev t) = totalRules (ev t)
            \<and> 0 < totalRules (ev t)
          \<longrightarrow> score (ev t) = 1 / 2 \<and> t \<in> set (optional sel) \<and> t \<notin> set (suggested sel)))"
proof -
  let ?sel = "selectTemplates N lc rs ts cv"
  let ?ev = "\<lambda>t. evaluateRules N t rs cv"
  have r: "mset (required ?sel) =
         filter_mset (\<lambda>t. t_isActive t \<and> (score (?ev t) \<ge> 1 \<or> isAlwaysInclude (?ev t))) (mset ts)"
    by (simp add: selectTemplates_unfold mset_sortBy inRequired_iff conj_commute)
  have s: "mset (suggested ?sel) =
         filter_mset (\<lambda>t. t_isActive t \<and> 1 / 2 < score (?ev t) \<and> score (?ev t) < 1) (mset ts)"
    by (simp add: selectTemplates_unfold mset_sortBy inSuggested_iff conj_commute conj_assoc)
  have o: "mset (optional ?sel) =
         filter_mset (\<lambda>t. t_isActive t \<and> \<not> (score (?ev t) \<ge> 1 \<or> isAlwaysInclude (?ev t))
                          \<and> \<not> (1 / 2 < score (?ev t) \<and> score (?ev t) < 1)) (mset ts)"
    by (simp add: selectTemplates_unfold mset_sortBy inSuggested_iff inRequired_iff)
  have h: "\<forall>t\<in>set ts. t_isActive t \<and> 2 * matchedRules (?ev t) = totalRules (?ev t)
            \<and> 0 < totalRules (?ev t)
          \<longrightarrow> score (?ev t) = 1 / 2 \<and> t \<in> set (optional ?sel) \<and> t \<notin> set (suggested ?sel)"
  proof (intro ballI impI)
    fix t assume t: "t \<in> set ts"
      and a: "t_isActive t \<and> 2 * matchedRules (?ev t) = totalRules (?ev t) \<and> 0 < totalRules (?ev t)"
    have half: "score (?ev t) = 1 / 2" using a eval_half by blast
    have na: "\<not> isAlwaysInclude (?ev t)" using eval_facts(1) [of N t rs cv] half by auto
    have "t \<in># mset (optional ?sel)" unfolding o using t a half na by simp
    moreover have "t \<notin># mset (suggested ?sel)" unfolding s using half by simp
    ultimately show "score (?ev t) = 1 / 2 \<and> t \<in> set (optional ?sel) \<and> t \<notin> set (suggested ?sel)"
      using half by simp
  qed
  show ?thesis unfolding Let_def using r s o h by blast
qed

lemma length_filter_erase:
  assumes "\<And>r. P (erasePriority r) = P r"
  shows "length (filter P xs) = size (filter_mset P (mset (map erasePriority xs)))"
  by (induction xs) (auto simp: assms)

lemma conditionsMet_erase: "conditionsMet N (erasePriority r) rs cv = conditionsMet N r rs cv"
  by (simp add: conditionsMet_def erasePriority_def)

text \<open>
  Claim C9.  The whole result of \<open>evaluateRules\<close> is the same for two rule lists that
  agree up to the order of the rules and the priorities written in them.
\<close>

theorem evaluateRules_priority_order_invariant:
  assumes "mset (map (\<lambda>r. r\<lparr> rule_priority := 0 \<rparr>) rules') = mset (map (\<lambda>r. r\<lparr> rule_priority := 0 \<rparr>) rules)"
  shows "evaluateRules N (t\<lparr> t_rules := Some rules' \<rparr>) rs cv =
         evaluateRules N (t\<lparr> t_rules := Some rules \<rparr>) rs cv"
proof -
  have m: "mset (map erasePriority rules') = mset (map erasePriority rules)"
    using assms unfolding erasePriority_def .
  have len: "length rules' = length rules"
    using m by (metis length_map size_mset)
  have nil: "(rules' = []) = (rules = [])" using len by auto
  have cnt: "length (filter P rules') = length (filter P rules)"
    if "\<And>r. P (erasePriority r) = P r" for P
    using length_filter_erase [of P rules', OF that] length_filter_erase [of P rules, OF that] m by simp
  have ex: "(\<exists>r\<in>set rules'. P r) = (\<exists>r\<in>set rules. P r)"
    if "\<And>r. P (erasePriority r) = P r" for P
  proof -
    have "(\<exists>r\<in>set xs. P r) = (filter P xs \<noteq> [])" for xs
      by (simp add: filter_empty_conv)
    then show ?thesis using cnt [of P, OF that] by (metis length_0_conv)
  qed
  have a: "(\<exists>r\<in>set rules'. rule_isAlwaysInclude r) = (\<exists>r\<in>set rules. rule_isAlwaysInclude r)"
    by (rule ex) (simp add: erasePriority_def)
  have b: "(\<exists>r\<in>set rules'. rule_isManualOnly r) = (\<exists>r\<in>set rules. rule_isManualOnly r)"
    by (rule ex) (simp add: erasePriority_def)
  have c: "length (filter (\<lambda>r. rule_conditions r \<noteq> []) rules') =
           length (filter (\<lambda>r. rule_conditions r \<noteq> []) rules)"
    by (rule cnt) (simp add: erasePriority_def)
  have d: "length (filter (\<lambda>r. rule_conditions r \<noteq> [] \<and> conditionsMet N r rs cv) rules') =
           length (filter (\<lambda>r. rule_conditions r \<noteq> [] \<and> conditionsMet N r rs cv) rules)"
    by (rule cnt) (simp add: conditionsMet_erase, simp add: erasePriority_def)
  show ?thesis
    unfolding evaluateRules_unfold by (simp add: rulesOf_def nil a b c d len)
qed


theorem evaluateRules_spec_witness:
  "list_all (\<lambda>r. \<not> rule_isAlwaysInclude r \<and> \<not> rule_isManualOnly r) (rulesOf tHalf)
   \<and> totalRules (evaluateRules Exact tHalf sampleResponses None) = 2
   \<and> matchedRules (evaluateRules Exact tHalf sampleResponses None) = 1
   \<and> score (evaluateRules Exact tHalf sampleResponses None) = 1 / 2"
proof -
  note T = evaluateRules_spec [of tHalf Exact sampleResponses None, unfolded Let_def]
  have h: "\<forall>r\<in>set (rulesOf tHalf). \<not> rule_isAlwaysInclude r \<and> \<not> rule_isManualOnly r"
    by code_simp
  have v1: "length (filter (\<lambda>r. rule_conditions r \<noteq> []) (rulesOf tHalf)) = 2"
    by code_simp
  have v2: "length (filter (\<lambda>r. rule_conditions r \<noteq> [] \<and>
              (if rule_logicalOperator r = Some OR
               then (\<exists>c\<in>set (rule_conditions r). evaluateCondition Exact c sampleResponses None)
               else (\<forall>c\<in>set (rule_conditions r). evaluateCondition Exact c sampleResponses None)))
            (rulesOf tHalf)) = 1"
    by code_simp
  from T h have
    "totalRules (evaluateRules Exact tHalf sampleResponses None) = 2
   \<and> matchedRules (evaluateRules Exact tHalf sampleResponses None) = 1
   \<and> score (evaluateRules Exact tHalf sampleResponses None) =
       (if totalRules (evaluateRules Exact tHalf sampleResponses None) = 0 then 0
        else of_nat (matchedRules (evaluateRules Exact tHalf sampleResponses None)) /
             of_nat (totalRules (evaluateRules Exact tHalf sampleResponses None)))"
    unfolding v1 v2 by blast
  then show ?thesis using h by (simp add: list_all_iff)
qed

theorem selectTemplates_partition_witness:
  "mset (required (selectTemplates Exact compareStrings sampleResponses sampleTemplates None)) = {#tAlways, tFull#}
 \<and> mset (suggested (selectTemplates Exact compareStrings sampleResponses sampleTemplates None)) = {#}
 \<and> mset (optional (selectTemplates Exact compareStrings sampleResponses sampleTemplates None)) = {#tHalf, tManual, tNoRules#}
 \<and> tHalf \<in> set sampleTemplates \<and> t_isActive tHalf
 \<and> 2 * matchedRules (evaluateRules Exact tHalf sampleResponses None) = totalRules (evaluateRules Exact tHalf sampleResponses None)
 \<and> 0 < totalRules (evaluateRules Exact tHalf sampleResponses None)
 \<and> score (evaluateRules Exact tHalf sampleResponses None) = 1 / 2
 \<and> tHalf \<in> set (optional (selectTemplates Exact compareStrings sampleResponses sampleTemplates None))
 \<and> tHalf \<notin> set (suggested (selectTemplates Exact compareStrings sampleResponses sampleTemplates None))"
proof -
  note T = selectTemplates_partition
    [of Exact compareStrings sampleResponses sampleTemplates None, unfolded Let_def]
  have act: "\<not> t_isActive tInactive" "t_isActive tHalf" "t_isActive tAlways"
    "t_isActive tManual" "t_isActive tFull" "t_isActive tNoRules"
    by code_simp+
  have sc: "score (evaluateRules Exact tHalf sampleResponses None) = 1 / 2"
    "score (evaluateRules Exact tAlways sampleResponses None) = 1"
    "score (evaluateRules Exact tManual sampleResponses None) = 0"
    "score (evaluateRules Exact tFull sampleResponses None) = 1"
    "score (evaluateRules Exact tNoRules sampleResponses None) = 0"
    by code_simp+
  have al: "\<not> isAlwaysInclude (evaluateRules Exact tHalf sampleResponses None)"
    "isAlwaysInclude (evaluateRules Exact tAlways sampleResponses None)"
    "\<not> isAlwaysInclude (evaluateRules Exact tManual sampleResponses None)"
    "\<not> isAlwaysInclude (evaluateRules Exact tFull sampleResponses None)"
    "\<not> isAlwaysInclude (evaluateRules Exact tNoRules sampleResponses None)"
    by code_simp+
  have half: "2 * matchedRules (evaluateRules Exact tHalf sampleResponses None) = totalRules (evaluateRules Exact tHalf sampleResponses None)"
    "0 < totalRules (evaluateRules Exact tHalf sampleResponses None)"
    by code_simp+
  have mem: "tHalf \<in> set sampleTemplates" by (simp add: sampleTemplates_def)
  have r: "mset (required (selectTemplates Exact compareStrings sampleResponses sampleTemplates None)) = {#tAlways, tFull#}"
    using T by (simp add: sampleTemplates_def act sc al)
  have s: "mset (suggested (selectTemplates Exact compareStrings sampleResponses sampleTemplates None)) = {#}"
    using T by (simp add: sampleTemplates_def act sc al)
  have o: "mset (optional (selectTemplates Exact compareStrings sampleResponses sampleTemplates None)) = {#tHalf, tManual, tNoRules#}"
    using T by (simp add: sampleTemplates_def act sc al)
  have h: "tHalf \<in> set (optional (selectTemplates Exact compareStrings sampleResponses sampleTemplates None))
         \<and> tHalf \<notin> set (suggested (selectTemplates Exact compareStrings sampleResponses sampleTemplates None))"
    using T mem act(2) half by blast
  show ?thesis using r s o h mem act(2) half sc(1) by blast
qed

theorem evaluateRules_priority_order_invariant_witness:
  "mset (map (\<lambda>r. r\<lparr> rule_priority := 0 \<rparr>) [ruleMany\<lparr> rule_priority := 7 \<rparr>, ruleState\<lparr> rule_priority := - 3 \<rparr>])
     = mset (map (\<lambda>r. r\<lparr> rule_priority := 0 \<rparr>) [ruleState, ruleMany])
   \<and> evaluateRules Exact (tHalf\<lparr> t_rules := Some [ruleMany\<lparr> rule_priority := 7 \<rparr>, ruleState\<lparr> rule_priority := - 3 \<rparr>] \<rparr>) sampleResponses None
     = evaluateRules Exact (tHalf\<lparr> t_rules := Some [ruleState, ruleMany] \<rparr>) sampleResponses None"
proof -
  have h: "mset (map (\<lambda>r. r\<lparr> rule_priority := 0 \<rparr>) [ruleMany\<lparr> rule_priority := 7 \<rparr>, ruleState\<lparr> rule_priority := - 3 \<rparr>])
     = mset (map (\<lambda>r. r\<lparr> rule_priority := 0 \<rparr>) [ruleState, ruleMany])"
    by (simp add: ruleMany_def ruleState_def rule_def)
  show ?thesis using h evaluateRules_priority_order_invariant [OF h] by blast
qed

subsection \<open>Condition evaluator\<close>

lemma includesStr_iff: "includesStr xs sub = (\<exists>p s. xs = p @ sub @ s)"
proof (induction xs)
  case Nil
  then show ?case by auto
next
  case (Cons x xs)
  have "sublist sub (x # xs) = (prefix sub (x # xs) \<or> sublist sub xs)"
    by (rule sublist_Cons_right)
  moreover have "sublist sub xs = includesStr xs sub"
    using Cons.IH by (simp add: sublist_def)
  ultimately show ?case by (simp add: sublist_def)
qed

text \<open>
  Claim C3.  \<open>evaluateCondition\<close> with a missing actual value is true for \<open>!=\<close> and
  false for every other operator.  With both operands present: \<open>==\<close> and \<open>!=\<close> compare
  numerically when both operands parse as numbers and case-insensitively as strings
  otherwise; \<open>contains\<close> and \<open>not_contains\<close> test for a case-insensitive substring;
  \<open>in\<close> looks the value up in the comma-separated operand; the ordering operators
  compare the parsed numbers and are false unless both operands parse.
\<close>

theorem evaluateCondition_spec:
  "(actualValue N c rs cv = None \<longrightarrow> evaluateCondition N c rs cv = (c_operator c = OpNe))
 \<and> (\<forall>a b. actualValue N c rs cv = Some a \<and> conditionValue c rs = Some b \<longrightarrow>
      (let numeric = (\<not> isNaN N (parseFloat N a) \<and> \<not> isNaN N (parseFloat N b));
           x = parseFloat N a;
           y = parseFloat N b;
           res = evaluateCondition N c rs cv
       in (c_operator c = OpEq \<longrightarrow>
             res = (if numeric then num_eq N x y else toLowerCase a = toLowerCase b))
        \<and> (c_operator c = OpNe \<longrightarrow>
             res = (if numeric then \<not> num_eq N x y else toLowerCase a \<noteq> toLowerCase b))
        \<and> (c_operator c = OpContains \<longrightarrow>
             res = (\<exists>p s. toLowerCase a = p @ toLowerCase b @ s))
        \<and> (c_operator c = OpNotContains \<longrightarrow>
             res = (\<not> (\<exists>p s. toLowerCase a = p @ toLowerCase b @ s)))
        \<and> (c_operator c = OpIn \<longrightarrow>
             res = (\<exists>v\<in>set (split '','' b). toLowerCase a = toLowerCase (trim v)))
        \<and> (c_operator c = OpGt \<longrightarrow> res = (numeric \<and> num_lt N y x))
        \<and> (c_operator c = OpGe \<longrightarrow> res = (numeric \<and> num_le N y x))
        \<and> (c_operator c = OpLt \<longrightarrow> res = (numeric \<and> num_lt N x y))
        \<and> (c_operator c = OpLe \<longrightarrow> res = (numeric \<and> num_le N x y))
        \<and> (c_operator c \<in> {OpGt, OpGe, OpLt, OpLe} \<and> \<not> numeric \<longrightarrow> \<not> res)))"
proof (intro conjI allI impI)
  assume "actualValue N c rs cv = None"
  then show "evaluateCondition N c rs cv = (c_operator c = OpNe)"
    by (simp add: evaluateCondition_def)
next
  fix a b
  assume h: "actualValue N c rs cv = Some a \<and> conditionValue c rs = Some b"
  then have e: "evaluateCondition N c rs cv = compareValues N (c_operator c) a b"
    by (simp add: evaluateCondition_def)
  show "let numeric = (\<not> isNaN N (parseFloat N a) \<and> \<not> isNaN N (parseFloat N b));
           x = parseFloat N a;
           y = parseFloat N b;
           res = evaluateCondition N c rs cv
       in (c_operator c = OpEq \<longrightarrow>
             res = (if numeric then num_eq N x y else toLowerCase a = toLowerCase b))
        \<and> (c_operator c = OpNe \<longrightarrow>
             res = (if numeric then \<not> num_eq N x y else toLowerCase a \<noteq> toLowerCase b))
        \<and> (c_operator c = OpContains \<longrightarrow>
             res = (\<exists>p s. toLowerCase a = p @ toLowerCase b @ s))
        \<and> (c_operator c = OpNotContains \<longrightarrow>
             res = (\<not> (\<exists>p s. toLowerCase a = p @ toLowerCase b @ s)))
        \<and> (c_operator c = OpIn \<longrightarrow>
             res = (\<exists>v\<in>set (split '','' b). toLowerCase a = toLowerCase (trim v)))
        \<and> (c_operator c = OpGt \<longrightarrow> res = (numeric \<and> num_lt N y x))
        \<and> (c_operator c = OpGe \<longrightarrow> res = (numeric \<and> num_le N y x))
        \<and> (c_operator c = OpLt \<longrightarrow> res = (numeric \<and> num_lt N x y))
        \<and> (c_operator c = OpLe \<longrightarrow> res = (numeric \<and> num_le N x y))
        \<and> (c_operator c \<in> {OpGt, OpGe, OpLt, OpLe} \<and> \<not> numeric \<longrightarrow> \<not> res)"
    unfolding Let_def e
    by (cases "c_operator c") (auto simp: bothNumeric_def includesStr_iff)
qed

text \<open>The missing-answer cases, and \<open>"5" > "3"\<close> by numeric coercion.\<close>

theorem evaluateCondition_spec_witness:
  "actualValue Exact (cond ''directorCount'' OpGt ''3'') sampleResponses None = Some ''5''
 \<and> conditionValue (cond ''directorCount'' OpGt ''3'') sampleResponses = Some ''3''
 \<and> evaluateCondition Exact (cond ''directorCount'' OpGt ''3'') sampleResponses None
 \<and> actualValue Exact (cond ''missing'' OpNe ''x'') sampleResponses None = None
 \<and> evaluateCondition Exact (cond ''missing'' OpNe ''x'') sampleResponses None
 \<and> actualValue Exact (cond ''missing'' OpEq ''x'') sampleResponses None = None
 \<and> \<not> evaluateCondition Exact (cond ''missing'' OpEq ''x'') sampleResponses None"
proof -
  note T = evaluateCondition_spec [of Exact _ sampleResponses None, unfolded Let_def]
  have a: "actualValue Exact (cond ''directorCount'' OpGt ''3'') sampleResponses None = Some ''5''"
    and b: "conditionValue (cond ''directorCount'' OpGt ''3'') sampleResponses = Some ''3''"
    by code_simp+
  have o: "c_operator (cond ''directorCount'' OpGt ''3'') = OpGt" by (simp add: cond_def)
  have v: "\<not> isNaN Exact (parseFloat Exact ''5'') \<and> \<not> isNaN Exact (parseFloat Exact ''3'')
         \<and> num_lt Exact (parseFloat Exact ''3'') (parseFloat Exact ''5'')"
    by code_simp
  have g: "evaluateCondition Exact (cond ''directorCount'' OpGt ''3'') sampleResponses None"
    using T [of "cond ''directorCount'' OpGt ''3''"] a b o v by blast
  have m1: "actualValue Exact (cond ''missing'' OpNe ''x'') sampleResponses None = None"
    and m2: "actualValue Exact (cond ''missing'' OpEq ''x'') sampleResponses None = None"
    by code_simp+
  have n1: "evaluateCondition Exact (cond ''missing'' OpNe ''x'') sampleResponses None"
    using T [of "cond ''missing'' OpNe ''x''"] m1 by (simp add: cond_def)
  have n2: "\<not> evaluateCondition Exact (cond ''missing'' OpEq ''x'') sampleResponses None"
    using T [of "cond ''missing'' OpEq ''x''"] m2 by (simp add: cond_def)
  show ?thesis using a b g m1 m2 n1 n2 by blast
qed


subsection \<open>Expression evaluator\<close>








text \<open>
  Claim C4 says that chains of one precedence evaluate from the left, so that
  \<open>10-2-3\<close> is 5 and \<open>8/2/2\<close> is 2.  The lazy first group of both patterns splits at
  the leftmost operator and the whole remainder becomes the right operand, so the
  evaluator associates to the right: it returns 11 and 8.
\<close>

theorem evaluateMathExpression_right_associative:
  "evaluateMathExpression Exact 3 ''10-2-3'' = Some (Fin 11)
 \<and> evaluateMathExpression Exact 3 ''8/2/2'' = Some (Fin 8)"
  by code_simp

text \<open>
  An empty parenthesis pair passes the character check and is never replaced: the
  parenthesis loop gets no further, whatever the fuel.
\<close>

lemma resolveParentheses_empty_pair: "resolveParentheses N k ''()'' = None"
  by (induction k) auto

subsection \<open>Case-insensitive aliases\<close>


























subsection \<open>Signing date\<close>













text \<open>The three variables for 31 January 2026, and a two-digit year read as 19xx.\<close>

lemma shsignVariables_example:
  "shsignVariables 3 (\<lambda>s. None) ''2026-01-31'' =
     [(''SHSIGNDate'', ''Feb 27, 2026''), (''SHSIGNDateShort'', ''02/27/2026''),
      (''SHSIGNDateISO'', ''2026-02-27'')]"
  by code_simp

lemma shsignDate_two_digit_year:
  "shsignDate 3 (\<lambda>s. None) ''0050-03-10'' = Some (1950, 2, 31)"
  by code_simp

end
